theory Spec2Isabelle
  imports Main "HOL-Library.AList"
begin

section \<open>The Etherscan source fetcher\<close>

text \<open>
  A shallow embedding of the class \<open>EtherscanFetcher\<close>: the network resolver of the
  constructor, the rate-limited, retrying requester and the classifier
  \<open>processResult\<close> with its helpers. Exceptions are values of the type \<open>error\<close>,
  and a function that can throw returns \<open>error + result\<close>.
\<close>

subsection \<open>JavaScript values\<close>

text \<open>
  The values \<open>JSON.parse\<close> can return, and \<open>undefined\<close>. The numbers are a type
  parameter: the program never computes with them. A string is a list of characters,
  one for each code unit. An object is the list of its own enumerable properties, in
  the order \<open>Object.entries\<close> lists them; an object that \<open>JSON.parse\<close> returns
  has each key once.
\<close>

datatype 'n jsval =
    JUndefined
  | JNull
  | JBool bool
  | JNum 'n
  | JStr string
  | JArr "'n jsval list"
  | JObj "(string \<times> 'n jsval) list"

type_synonym 'n obj = "(string \<times> 'n jsval) list"

text \<open>
  What the program can throw: a \<open>TypeError\<close> of the runtime, the \<open>Error\<close> that
  \<open>makeRequest\<close> builds from a failure envelope, whatever the transport threw, and
  the value \<open>undefined\<close> (the initial \<open>lastError\<close>).
\<close>

datatype 'e error =
    TypeError
  | Error string
  | Thrown 'e
  | ThrownUndefined

text \<open>Decimal rendering of an array index, as property keys are strings.\<close>

fun show_nat :: "nat \<Rightarrow> string" where
  "show_nat n =
     (if n < 10 then [''0123456789'' ! n]
      else show_nat (n div 10) @ [''0123456789'' ! (n mod 10)])"

declare show_nat.simps [simp del]

definition indexed :: "'a list \<Rightarrow> (string \<times> 'a) list" where
  "indexed xs = map (\<lambda>(i, x). (show_nat i, x)) (enumerate 0 xs)"

text \<open>
  The own enumerable string-keyed properties of a value that is neither \<open>undefined\<close>
  nor \<open>null\<close>: none for a boolean or a number, the indexed characters of a string,
  the indexed elements of an array, the entries of an object.
\<close>

fun own_entries :: "'n jsval \<Rightarrow> 'n obj" where
  "own_entries (JStr s) = indexed (map (\<lambda>c. JStr [c]) s)"
| "own_entries (JArr xs) = indexed xs"
| "own_entries (JObj kvs) = kvs"
| "own_entries _ = []"

text \<open>\<open>Object.entries(v)\<close>: a \<open>TypeError\<close> on \<open>undefined\<close> and \<open>null\<close>.\<close>

fun Object_entries :: "'n jsval \<Rightarrow> 'e error + 'n obj" where
  "Object_entries JUndefined = Inl TypeError"
| "Object_entries JNull = Inl TypeError"
| "Object_entries v = Inr (own_entries v)"

text \<open>The object spread \<open>{ ...v }\<close>: \<open>undefined\<close> and \<open>null\<close> contribute nothing.\<close>

definition spread :: "'n jsval \<Rightarrow> 'n obj" where
  "spread v = own_entries v"

text \<open>
  The property read \<open>v.name\<close> on a value that is neither \<open>undefined\<close> nor \<open>null\<close>,
  for a name that is not an array index, not \<open>length\<close> and not inherited from a
  prototype. The program reads \<open>language\<close>, \<open>sources\<close>, \<open>settings\<close> and
  \<open>content\<close> only.
\<close>

fun read_prop :: "string \<Rightarrow> 'n jsval \<Rightarrow> 'n jsval" where
  "read_prop name (JObj kvs) = (case map_of kvs name of None \<Rightarrow> JUndefined | Some v \<Rightarrow> v)"
| "read_prop name _ = JUndefined"

text \<open>The same read with the \<open>TypeError\<close> of \<open>undefined\<close> and \<open>null\<close>.\<close>

fun get_prop :: "string \<Rightarrow> 'n jsval \<Rightarrow> 'e error + 'n jsval" where
  "get_prop name JUndefined = Inl TypeError"
| "get_prop name JNull = Inl TypeError"
| "get_prop name v = Inr (read_prop name v)"

text \<open>\<open>s.startsWith(p)\<close>.\<close>

definition startsWith :: "string \<Rightarrow> string \<Rightarrow> bool" where
  "startsWith s p = (take (length p) s = p)"

subsection \<open>The provider's record and the canonical source\<close>

record EtherscanResult =
  SourceCode :: string
  ABI :: string
  ContractName :: string
  CompilerVersion :: string
  OptimizationUsed :: string
  Runs :: string
  ConstructorArguments :: string
  EVMVersion :: string
  Library :: string
  LicenseType :: string
  Proxy :: string
  Implementation :: string
  SwarmSource :: string

record 'n CompilerOptions =
  language :: string
  version :: string
  settings :: "'n obj"

record 'n SourceInfo =
  sources :: "'n obj"
  options :: "'n CompilerOptions"

text \<open>
  What the classifier calls and the class does not define: the built-ins
  \<open>JSON.parse\<close> (\<open>None\<close> when it throws) and \<open>parseInt\<close> of the runtime, and
  \<open>makeFilename\<close>, imported from \<open>./common\<close>. They are parameters of the model.
\<close>

record 'n env =
  JSON_parse :: "string \<Rightarrow> 'n jsval option"
  parseInt :: "string \<Rightarrow> 'n"
  makeFilename :: "string \<Rightarrow> string"

subsection \<open>The classifier\<close>

definition isFullJson :: "'n jsval \<Rightarrow> 'e error + bool" where
  "isFullJson sourceJson =
     (case get_prop ''language'' sourceJson of
        Inl e \<Rightarrow> Inl e
      | Inr l \<Rightarrow> Inr (l = JStr ''Solidity''))"

definition extractSettings :: "'n env \<Rightarrow> EtherscanResult \<Rightarrow> 'n obj" where
  "extractSettings E result =
     (let evmVersion =
            (if EVMVersion result = ''Default'' then None else Some (EVMVersion result));
          optimizer =
            JObj [(''enabled'', JBool (OptimizationUsed result = ''1'')),
                  (''runs'', JNum (parseInt E (Runs result)))]
      in case evmVersion of
           Some v \<Rightarrow> [(''optimizer'', optimizer), (''evmVersion'', JStr v)]
         | None \<Rightarrow> [(''optimizer'', optimizer)])"

definition removeLibraries :: "'n jsval \<Rightarrow> 'n obj" where
  "removeLibraries settings' =
     (let copySettings = spread settings'
      in AList.delete ''libraries'' copySettings)"

text \<open>
  The callback of \<open>processSources\<close>: destructuring \<open>{ content: source }\<close> throws on
  \<open>undefined\<close> and \<open>null\<close>; otherwise the entry becomes a one-property object.
\<close>

definition source_entry :: "'n env \<Rightarrow> string \<times> 'n jsval \<Rightarrow> 'e error + 'n obj" where
  "source_entry E entry =
     (case entry of (path, v) \<Rightarrow>
        (case get_prop ''content'' v of
           Inl e \<Rightarrow> Inl e
         | Inr source \<Rightarrow> Inr [(makeFilename E path, source)]))"

text \<open>\<open>Array.prototype.map\<close> with a callback that can throw: the first throw ends it.\<close>

fun map_throw :: "('a \<Rightarrow> 'e error + 'b) \<Rightarrow> 'a list \<Rightarrow> 'e error + 'b list" where
  "map_throw f [] = Inr []"
| "map_throw f (x # xs) =
     (case f x of
        Inl e \<Rightarrow> Inl e
      | Inr y \<Rightarrow> (case map_throw f xs of Inl e \<Rightarrow> Inl e | Inr ys \<Rightarrow> Inr (y # ys)))"

text \<open>
  \<open>Object.assign(target, ...objs)\<close>: every property of every object is written to
  the target in turn, a later write to a key replacing the earlier value.
\<close>

definition Object_assign :: "'n obj \<Rightarrow> 'n obj list \<Rightarrow> 'n obj" where
  "Object_assign target objs =
     fold (\<lambda>ob acc. fold (\<lambda>(k, v). AList.update k v) ob acc) objs target"

definition processSources :: "'n env \<Rightarrow> 'n jsval \<Rightarrow> 'e error + 'n obj" where
  "processSources E sources' =
     (case Object_entries sources' of
        Inl e \<Rightarrow> Inl e
      | Inr entries \<Rightarrow>
          (case map_throw (source_entry E) entries of
             Inl e \<Rightarrow> Inl e
           | Inr objs \<Rightarrow> Inr (Object_assign [] objs)))"

definition processSingleResult :: "'n env \<Rightarrow> EtherscanResult \<Rightarrow> 'n SourceInfo" where
  "processSingleResult E result =
     (let filename = makeFilename E (ContractName result)
      in \<lparr>sources = [(filename, JStr (SourceCode result))],
          options = \<lparr>language = ''Solidity'',
                     version = CompilerVersion result,
                     settings = extractSettings E result\<rparr>\<rparr>)"

definition processMultiResult ::
  "'n env \<Rightarrow> EtherscanResult \<Rightarrow> 'n jsval \<Rightarrow> 'e error + 'n SourceInfo" where
  "processMultiResult E result sources' =
     (case processSources E sources' of
        Inl e \<Rightarrow> Inl e
      | Inr srcs \<Rightarrow>
          Inr \<lparr>sources = srcs,
               options = \<lparr>language = ''Solidity'',
                          version = CompilerVersion result,
                          settings = extractSettings E result\<rparr>\<rparr>)"

definition processJsonResult ::
  "'n env \<Rightarrow> EtherscanResult \<Rightarrow> 'n jsval \<Rightarrow> 'e error + 'n SourceInfo" where
  "processJsonResult E result jsonInput =
     (case processSources E (read_prop ''sources'' jsonInput) of
        Inl e \<Rightarrow> Inl e
      | Inr srcs \<Rightarrow>
          Inr \<lparr>sources = srcs,
               options = \<lparr>language = ''Solidity'',
                          version = CompilerVersion result,
                          settings = removeLibraries (read_prop ''settings'' jsonInput)\<rparr>\<rparr>)"

definition vyperInfo :: "'n SourceInfo" where
  "vyperInfo =
     \<lparr>sources = [],
      options = \<lparr>language = ''Vyper'', version = '''', settings = []\<rparr>\<rparr>"

text \<open>
  \<open>processResult\<close>, the five cases in the order of the source. The argument is
  \<open>None\<close> when the caller passes \<open>undefined\<close>, and reading \<open>result.SourceCode\<close>
  then throws. The result \<open>Inr None\<close> is \<open>null\<close>.
\<close>

definition processResult ::
  "'n env \<Rightarrow> EtherscanResult option \<Rightarrow> 'e error + 'n SourceInfo option" where
  "processResult E r =
     (case r of
        None \<Rightarrow> Inl TypeError
      | Some result \<Rightarrow>
          if SourceCode result = '''' \<and> ABI result = ''Contract source code not verified''
          then Inr None
          else if startsWith (CompilerVersion result) ''vyper''
          then Inr (Some vyperInfo)
          else (case JSON_parse E (SourceCode result) of
                  None \<Rightarrow> Inr (Some (processSingleResult E result))
                | Some sourceJson \<Rightarrow>
                    (case isFullJson sourceJson of
                       Inl e \<Rightarrow> Inl e
                     | Inr True \<Rightarrow> map_sum id Some (processJsonResult E result sourceJson)
                     | Inr False \<Rightarrow> map_sum id Some (processMultiResult E result sourceJson))))"

subsection \<open>The network resolver\<close>

record fetcher =
  validNetwork :: bool
  suffix :: "string option"
  apiKey :: string
  timeout :: nat
  ready :: nat

text \<open>
  Modelled from the spec: \<open>makeTimer\<close> is imported from \<open>./common\<close>, which is
  not part of the sources at hand. The spec describes its result as a readiness
  signal that is satisfied once the given number of milliseconds has passed since it
  was made. The model keeps the instant, on a clock of milliseconds, at which the
  signal becomes satisfied.
\<close>

definition makeTimer :: "nat \<Rightarrow> nat \<Rightarrow> nat" where
  "makeTimer now milliseconds = now + milliseconds"

definition supportedNetworks :: "string list" where
  "supportedNetworks = [''mainnet'', ''ropsten'', ''kovan'', ''rinkeby'', ''goerli'']"

text \<open>
  The constructor. The table \<open>networksById\<close> is imported from \<open>./common\<close> and is
  a parameter; \<open>None\<close> is the \<open>undefined\<close> of a missing entry. The field
  \<open>suffix\<close> stays unassigned (\<open>None\<close>) on an unsupported network. The second
  argument is the time of the call.
\<close>

definition EtherscanFetcher :: "('i \<Rightarrow> string option) \<Rightarrow> nat \<Rightarrow> 'i \<Rightarrow> fetcher" where
  "EtherscanFetcher networksById now networkId =
     (let networkName = networksById networkId;
          (valid, suff) =
            (case networkName of
               None \<Rightarrow> (False, None)
             | Some nm \<Rightarrow>
                 if nm \<notin> set supportedNetworks then (False, None)
                 else (True, Some (if nm = ''mainnet'' then '''' else ''-'' @ nm)));
          key = '''';
          wait = (if key \<noteq> '''' then 200 else 334)
      in \<lparr>validNetwork = valid, suffix = suff, apiKey = key, timeout = wait,
          ready = makeTimer now 0\<rparr>)"

definition isNetworkValid :: "fetcher \<Rightarrow> bool" where
  "isNetworkValid f = validNetwork f"

subsection \<open>The requester\<close>

text \<open>
  The provider's envelope: the union of \<open>EtherscanSuccess\<close> (status \<open>"1"\<close>, the
  result a list of records) and \<open>EtherscanFailure\<close> (status \<open>"0"\<close>, the result a
  string).
\<close>

record 'r EtherscanEnvelope =
  message :: string
  result :: 'r

type_synonym EtherscanSuccess = "EtherscanResult list EtherscanEnvelope"

type_synonym EtherscanFailure = "string EtherscanEnvelope"

datatype EtherscanResponse =
    Status1 EtherscanSuccess
  | Status0 EtherscanFailure

record request =
  uri :: string
  address :: string
  apikey :: string

text \<open>What the promise returned by \<open>request\<close> does: it rejects or it resolves.\<close>

datatype 'e outcome =
    Rejects 'e
  | Resolves EtherscanResponse

text \<open>
  The transport is outside the program: for the \<open>k\<close>-th call (counted from 0) and
  its request it gives the time the call takes and its outcome.
\<close>

type_synonym 'e transport = "nat \<Rightarrow> request \<Rightarrow> nat \<times> 'e outcome"

text \<open>
  The world of one fetcher used by one caller at a time: the clock in milliseconds
  and the start times of the transport calls made so far, the latest first.
\<close>

record world =
  clock :: nat
  dispatched :: "nat list"

text \<open>A promise of the model: the time at which it settles and how.\<close>

type_synonym ('e, 'a) promise = "nat \<times> ('e error + 'a)"

text \<open>
  \<open>makeRequest\<close>: the transport call starts when the function is called; the
  promise it returns rejects with what the transport threw, or with an \<open>Error\<close>
  made of the result string of a failure envelope, and otherwise resolves with the
  envelope.
\<close>

definition request_for :: "fetcher \<Rightarrow> string \<Rightarrow> request" where
  "request_for f addr =
     \<lparr>uri = ''https://api''
             @ (case suffix f of None \<Rightarrow> ''undefined'' | Some s \<Rightarrow> s)
             @ ''.etherscan.io/api'',
      address = addr, apikey = apiKey f\<rparr>"

definition settle :: "'e outcome \<Rightarrow> 'e error + EtherscanSuccess" where
  "settle out =
     (case out of
        Rejects e \<Rightarrow> Inl (Thrown e)
      | Resolves (Status0 response) \<Rightarrow> Inl (Error (result response))
      | Resolves (Status1 response) \<Rightarrow> Inr response)"

definition makeRequest ::
  "'e transport \<Rightarrow> fetcher \<Rightarrow> string \<Rightarrow> world \<Rightarrow> ('e, EtherscanSuccess) promise \<times> world" where
  "makeRequest net f addr w =
     (let (latency, out) = net (length (dispatched w)) (request_for f addr)
      in ((clock w + latency, settle out), w\<lparr>dispatched := clock w # dispatched w\<rparr>))"

text \<open>Awaiting a promise: the clock moves to the time it settles, if that is later.\<close>

definition await :: "nat \<Rightarrow> world \<Rightarrow> world" where
  "await settles w = w\<lparr>clock := max (clock w) settles\<rparr>"

definition allowedAttempts :: nat where
  "allowedAttempts = 2"

text \<open>
  One turn of the loop of \<open>getSuccessfulResponse\<close>, up to the \<open>try\<close>: await the
  readiness signal, start the request, replace the signal, await the response.
\<close>

definition attempt_once ::
  "'e transport \<Rightarrow> string \<Rightarrow> fetcher \<times> world \<Rightarrow> ('e error + EtherscanSuccess) \<times> fetcher \<times> world" where
  "attempt_once net addr s =
     (case s of (f, w) \<Rightarrow>
        (let w1 = await (ready f) w;
             (responsePromise, w2) = makeRequest net f addr w1;
             f' = f\<lparr>ready := makeTimer (clock w2) (timeout f)\<rparr>;
             w3 = await (fst responsePromise) w2
         in (snd responsePromise, f', w3)))"

function attempts ::
  "'e transport \<Rightarrow> string \<Rightarrow> nat \<Rightarrow> 'e error \<Rightarrow> fetcher \<times> world
     \<Rightarrow> ('e error + EtherscanSuccess) \<times> fetcher \<times> world" where
  "attempts net addr attempt lastError s =
     (if attempt < allowedAttempts then
        (case attempt_once net addr s of
           (Inr response, s') \<Rightarrow> (Inr response, s')
         | (Inl err, s') \<Rightarrow> attempts net addr (attempt + 1) err s')
      else (Inl lastError, s))"
  by pat_completeness auto
termination
  by (relation "measure (\<lambda>(net, addr, attempt, lastError, s). allowedAttempts - attempt)") auto

declare attempts.simps [simp del]

definition getSuccessfulResponse ::
  "'e transport \<Rightarrow> string \<Rightarrow> fetcher \<times> world \<Rightarrow> ('e error + EtherscanSuccess) \<times> fetcher \<times> world" where
  "getSuccessfulResponse net addr s = attempts net addr 0 ThrownUndefined s"

text \<open>\<open>xs[0]\<close>: \<open>undefined\<close> on the empty array.\<close>

definition at0 :: "'a list \<Rightarrow> 'a option" where
  "at0 xs = (case xs of [] \<Rightarrow> None | x # _ \<Rightarrow> Some x)"

definition fetchSourcesForAddress ::
  "'n env \<Rightarrow> 'e transport \<Rightarrow> string \<Rightarrow> fetcher \<times> world
     \<Rightarrow> ('e error + 'n SourceInfo option) \<times> fetcher \<times> world" where
  "fetchSourcesForAddress E net addr s =
     (case getSuccessfulResponse net addr s of
        (Inl err, s') \<Rightarrow> (Inl err, s')
      | (Inr response, s') \<Rightarrow> (processResult E (at0 (result response)), s'))"

subsection \<open>Several callers at the gate\<close>

text \<open>
  The first three statements of the loop body of \<open>getSuccessfulResponse\<close>, for
  callers that share one fetcher. \<open>Await i\<close>: caller \<open>i\<close> reaches
  \<open>await this.ready\<close> and is suspended on the signal that the field holds at that
  moment. \<open>Resume i\<close>: that signal is satisfied and caller \<open>i\<close> goes on, starting its
  request and replacing the signal. \<open>Tick k\<close>: \<open>k\<close> milliseconds pass. A step that
  cannot happen gives \<open>None\<close>.
\<close>

datatype event =
    Tick nat
  | Await nat
  | Resume nat

record callers =
  shared :: fetcher
  time :: nat
  awaiting :: "(nat \<times> nat) list"
  starts :: "nat list"

definition step :: "event \<Rightarrow> callers \<Rightarrow> callers option" where
  "step ev c =
     (case ev of
        Tick k \<Rightarrow> Some (c\<lparr>time := time c + k\<rparr>)
      | Await i \<Rightarrow>
          (case map_of (awaiting c) i of
             Some _ \<Rightarrow> None
           | None \<Rightarrow> Some (c\<lparr>awaiting := (i, ready (shared c)) # awaiting c\<rparr>))
      | Resume i \<Rightarrow>
          (case map_of (awaiting c) i of
             None \<Rightarrow> None
           | Some signal \<Rightarrow>
               if time c < signal then None
               else Some (c\<lparr>shared := (shared c)\<lparr>ready := makeTimer (time c) (timeout (shared c))\<rparr>,
                            awaiting := AList.delete i (awaiting c),
                            starts := time c # starts c\<rparr>)))"

fun run :: "event list \<Rightarrow> callers \<Rightarrow> callers option" where
  "run [] c = Some c"
| "run (ev # evs) c = (case step ev c of None \<Rightarrow> None | Some c' \<Rightarrow> run evs c')"

text \<open>
  Start times, the latest first, each at least \<open>d\<close> after the one before it.
\<close>

fun spaced :: "nat \<Rightarrow> nat list \<Rightarrow> bool" where
  "spaced d (a # b # rest) = (b + d \<le> a \<and> spaced d (b # rest))"
| "spaced d _ = True"

subsection \<open>Values the classifier can read\<close>

definition nullish :: "'n jsval \<Rightarrow> bool" where
  "nullish v = (v = JUndefined \<or> v = JNull)"

text \<open>
  A value that \<open>processSources\<close> can walk: it is not \<open>undefined\<close> or \<open>null\<close>, and
  neither is the value of any of its entries.
\<close>

definition readable_sources :: "'n jsval \<Rightarrow> bool" where
  "readable_sources v = (\<not> nullish v \<and> list_all (\<lambda>(path, x). \<not> nullish x) (own_entries v))"

text \<open>
  A parsed source text that the classifier can read: it is not \<open>null\<close>, and its
  sources (its property \<open>sources\<close> when its \<open>language\<close> is \<open>"Solidity"\<close>, the
  value itself otherwise) can be walked.
\<close>

definition readable :: "'n jsval \<Rightarrow> bool" where
  "readable j =
     (\<not> nullish j \<and>
      readable_sources
        (if read_prop ''language'' j = JStr ''Solidity'' then read_prop ''sources'' j else j))"

subsection \<open>Example inputs\<close>

text \<open>
  An instance of the three parameters, for the examples: \<open>JSON.parse\<close> on the texts
  the examples use (it throws on the empty string and on Solidity text), the value of
  a string of decimal digits for \<open>parseInt\<close>, and a \<open>makeFilename\<close> that appends
  \<open>.sol\<close> where the name does not end with it.
\<close>

definition digits_value :: "string \<Rightarrow> int" where
  "digits_value s = foldl (\<lambda>n c. 10 * n + (of_char c - 48)) 0 s"

definition dot_sol :: "string \<Rightarrow> string" where
  "dot_sol nm = (if startsWith (rev nm) (rev ''.sol'') then nm else nm @ ''.sol'')"

definition full_input_text :: string where
  \<open>full_input_text = ''{"language":"Solidity","sources":{"a.sol":{"content":"X"}},"settings":{"libraries":{"a.sol":{"L":"0x1"}},"optimizer":{"enabled":true,"runs":1}}}''\<close>

definition full_input :: "int jsval" where
  "full_input =
     JObj [(''language'', JStr ''Solidity''),
           (''sources'', JObj [(''a.sol'', JObj [(''content'', JStr ''X'')])]),
           (''settings'',
              JObj [(''libraries'', JObj [(''a.sol'', JObj [(''L'', JStr ''0x1'')])]),
                    (''optimizer'', JObj [(''enabled'', JBool True), (''runs'', JNum 1)])])]"

definition example_parse :: "string \<Rightarrow> int jsval option" where
  "example_parse s =
     (if s = ''null'' then Some JNull
      else if s = full_input_text then Some full_input
      else None)"

definition example_env :: "int env" where
  "example_env =
     \<lparr>JSON_parse = example_parse, parseInt = digits_value, makeFilename = dot_sol\<rparr>"

definition example_record :: EtherscanResult where
  "example_record =
     \<lparr>SourceCode = ''contract C {}'', ABI = ''[]'', ContractName = ''C'',
      CompilerVersion = ''v0.8.0'', OptimizationUsed = ''1'', Runs = ''200'',
      ConstructorArguments = '''', EVMVersion = ''Default'', Library = '''',
      LicenseType = ''MIT'', Proxy = ''0'', Implementation = '''', SwarmSource = ''''\<rparr>"

definition vyper_record :: EtherscanResult where
  "vyper_record =
     example_record\<lparr>SourceCode := ''# @version 0.2.8'', CompilerVersion := ''vyper:0.2.8''\<rparr>"

definition null_record :: EtherscanResult where
  "null_record = example_record\<lparr>SourceCode := ''null''\<rparr>"

definition full_input_record :: EtherscanResult where
  "full_input_record =
     example_record\<lparr>SourceCode := full_input_text, Library := ''L:0x1''\<rparr>"

definition empty_source_record :: EtherscanResult where
  "empty_source_record = example_record\<lparr>SourceCode := ''''\<rparr>"

definition example_networks :: "int \<Rightarrow> string option" where
  "example_networks =
     map_of [(1, ''mainnet''), (3, ''ropsten''), (4, ''rinkeby''), (5, ''goerli''),
             (42, ''kovan''), (100, ''xdai'')]"

definition ok_envelope :: EtherscanSuccess where
  "ok_envelope = \<lparr>message = ''OK'', result = [example_record, vyper_record]\<rparr>"

definition failure_envelope :: EtherscanFailure where
  "failure_envelope = \<lparr>message = ''NOTOK'', result = ''Max rate limit reached''\<rparr>"

text \<open>A transport whose first call is rejected and whose later calls succeed.\<close>

definition flaky_transport :: "string transport" where
  "flaky_transport k req =
     (if k = 0 then (50, Rejects ''ETIMEDOUT'') else (80, Resolves (Status1 ok_envelope)))"

text \<open>
  A transport whose first call is rejected and whose later calls get a failure
  envelope.
\<close>

definition failing_transport :: "string transport" where
  "failing_transport k req =
     (if k = 0 then (50, Rejects ''ETIMEDOUT'') else (80, Resolves (Status0 failure_envelope)))"

text \<open>A transport that answers with a success envelope whose result array is empty.\<close>

definition empty_transport :: "string transport" where
  "empty_transport k req = (20, Resolves (Status1 \<lparr>message = ''OK'', result = []\<rparr>))"

text \<open>An object with the two paths \<open>a\<close> and \<open>a.sol\<close>.\<close>

definition two_paths :: "int jsval" where
  "two_paths =
     JObj [(''a'', JObj [(''content'', JStr ''X'')]),
           (''a.sol'', JObj [(''content'', JStr ''Y'')])]"

definition fresh_state :: "fetcher \<times> world" where
  "fresh_state = (EtherscanFetcher example_networks 0 5, \<lparr>clock = 0, dispatched = []\<rparr>)"

definition fresh_callers :: callers where
  "fresh_callers =
     \<lparr>shared = EtherscanFetcher example_networks 0 5, time = 0, awaiting = [], starts = []\<rparr>"

text \<open>
  The invariant of the gate when one caller at a time uses the fetcher: the start
  times are spaced by the interval, and the readiness signal is not satisfied earlier
  than one interval after the latest start.
\<close>

definition gate_ok :: "fetcher \<times> world \<Rightarrow> bool" where
  "gate_ok s =
     (case s of (f, w) \<Rightarrow>
        spaced (timeout f) (dispatched w)
        \<and> (case dispatched w of [] \<Rightarrow> True | t # _ \<Rightarrow> t + timeout f \<le> ready f))"

lemmas example_defs =
  example_env_def example_parse_def example_record_def vyper_record_def null_record_def
  full_input_record_def empty_source_record_def full_input_def full_input_text_def
  digits_value_def dot_sol_def startsWith_def example_networks_def ok_envelope_def
  failure_envelope_def flaky_transport_def failing_transport_def empty_transport_def
  two_paths_def fresh_state_def fresh_callers_def

section \<open>Properties of the classifier\<close>

subsection \<open>When reading the parsed value throws\<close>

lemma get_prop_Inl:
  "(get_prop name v = Inl e) = (nullish v \<and> e = (TypeError :: 'e error))"
  by (cases v) (auto simp: nullish_def)

lemma map_throw_source_entry_Inl:
  "map_throw (source_entry E) es = Inl e \<Longrightarrow> e = TypeError"
  by (induction es) (auto simp: source_entry_def get_prop_Inl split: sum.splits prod.splits)

lemma map_throw_source_entry_ok:
  "(\<exists>objs. map_throw (source_entry E) es = (Inr objs :: 'e error + 'n obj list)) =
     list_all (\<lambda>(path, x). \<not> nullish x) es"
proof (induction es)
  case Nil
  show ?case by simp
next
  case (Cons a es)
  obtain p x where a: "a = (p, x)" by (cases a)
  show ?case
  proof (cases "nullish x")
    case True
    then have "source_entry E a = (Inl TypeError :: 'e error + 'n obj)"
      using a by (cases x) (auto simp: source_entry_def nullish_def)
    then show ?thesis using True a by simp
  next
    case False
    then have "source_entry E a =
        (Inr [(makeFilename E p, read_prop ''content'' x)] :: 'e error + 'n obj)"
      using a by (cases x) (auto simp: source_entry_def nullish_def)
    then show ?thesis using False a Cons.IH [symmetric]
      by (auto split: sum.splits)
  qed
qed

lemma processSources_Inl: "processSources E v = Inl e \<Longrightarrow> e = TypeError"
  by (cases v)
    (auto simp: processSources_def split: sum.splits dest: map_throw_source_entry_Inl)

lemma processSources_ok:
  "(\<exists>srcs. processSources E v = (Inr srcs :: 'e error + 'n obj)) = readable_sources v"
proof (cases "nullish v")
  case True
  then show ?thesis
    by (auto simp: processSources_def readable_sources_def nullish_def)
next
  case False
  then have oe: "Object_entries v = (Inr (own_entries v) :: 'e error + 'n obj)"
    by (cases v) (auto simp: nullish_def)
  have "(\<exists>srcs. processSources E v = (Inr srcs :: 'e error + 'n obj)) =
        (\<exists>objs. map_throw (source_entry E) (own_entries v)
                  = (Inr objs :: 'e error + 'n obj list))"
    by (auto simp: processSources_def oe split: sum.splits)
  then show ?thesis using False
    by (simp add: map_throw_source_entry_ok readable_sources_def)
qed

lemma isFullJson_nullish:
  "nullish j \<Longrightarrow> isFullJson j = (Inl TypeError :: 'e error + bool)"
  by (cases j) (auto simp: isFullJson_def nullish_def)

lemma isFullJson_value:
  "\<not> nullish j \<Longrightarrow>
     isFullJson j = (Inr (read_prop ''language'' j = JStr ''Solidity'') :: 'e error + bool)"
  by (cases j) (auto simp: isFullJson_def nullish_def)

text \<open>
  After a parse that succeeded the classifier returns a source exactly when the
  parsed value is readable, and throws a \<open>TypeError\<close> otherwise.
\<close>

lemma parsed_result:
  assumes "\<not> (SourceCode r = '''' \<and> ABI r = ''Contract source code not verified'')"
    and "\<not> startsWith (CompilerVersion r) ''vyper''"
    and "JSON_parse E (SourceCode r) = Some j"
  shows "if readable j
         then \<exists>info. processResult E (Some r) = (Inr (Some info) :: 'e error + 'n SourceInfo option)
         else processResult E (Some r) = (Inl TypeError :: 'e error + 'n SourceInfo option)"
proof (cases "nullish j")
  case True
  then show ?thesis using assms
    by (auto simp: processResult_def isFullJson_nullish readable_def)
next
  case nn: False
  show ?thesis
  proof (cases "read_prop ''language'' j = JStr ''Solidity''")
    case full: True
    have rd: "readable j = readable_sources (read_prop ''sources'' j)"
      using nn full by (simp add: readable_def)
    have pr: "processResult E (Some r) =
        (map_sum id Some (processJsonResult E r j) :: 'e error + 'n SourceInfo option)"
      using assms nn full by (auto simp: processResult_def isFullJson_value)
    show ?thesis
    proof (cases "processSources E (read_prop ''sources'' j) :: 'e error + 'n obj")
      case (Inl e)
      then have "e = TypeError" by (rule processSources_Inl)
      moreover have "\<not> readable j"
        using Inl rd processSources_ok [of E "read_prop ''sources'' j", where ?'e = 'e]
        by auto
      ultimately show ?thesis using Inl pr by (simp add: processJsonResult_def)
    next
      case (Inr srcs)
      then have "readable j"
        using rd processSources_ok [of E "read_prop ''sources'' j", where ?'e = 'e]
        by auto
      then show ?thesis using Inr pr by (simp add: processJsonResult_def)
    qed
  next
    case multi: False
    have rd: "readable j = readable_sources j"
      using nn multi by (simp add: readable_def)
    have pr: "processResult E (Some r) =
        (map_sum id Some (processMultiResult E r j) :: 'e error + 'n SourceInfo option)"
      using assms nn multi by (auto simp: processResult_def isFullJson_value)
    show ?thesis
    proof (cases "processSources E j :: 'e error + 'n obj")
      case (Inl e)
      then have "e = TypeError" by (rule processSources_Inl)
      moreover have "\<not> readable j"
        using Inl rd processSources_ok [of E j, where ?'e = 'e] by auto
      ultimately show ?thesis using Inl pr by (simp add: processMultiResult_def)
    next
      case (Inr srcs)
      then have "readable j"
        using rd processSources_ok [of E j, where ?'e = 'e] by auto
      then show ?thesis using Inr pr by (simp add: processMultiResult_def)
    qed
  qed
qed

lemma extractSettings_keys:
  "fst ` set (extractSettings E r) \<subseteq> {''optimizer'', ''evmVersion''}"
  by (auto simp: extractSettings_def)

lemma removeLibraries_keys: "''libraries'' \<notin> fst ` set (removeLibraries v)"
  by (auto simp: removeLibraries_def AList.delete_eq)

lemma removeLibraries_lookup:
  "k \<noteq> ''libraries'' \<Longrightarrow> map_of (removeLibraries v) k = map_of (spread v) k"
  by (simp add: removeLibraries_def AList.delete_conv')

subsection \<open>The order of the cases\<close>

text \<open>
  C1. A record that is not the unverified one (an empty source text together with the
  not-verified ABI text) and whose compiler version starts with \<open>vyper\<close> is classified
  as the fixed Vyper source: no sources, language \<open>Vyper\<close>, an empty version and
  empty settings. The result is the same whatever \<open>JSON.parse\<close> would do on the
  source text, also when it throws: the Vyper case is decided before the parse.
\<close>

theorem vyper_before_parse:
  assumes "\<not> (SourceCode r = '''' \<and> ABI r = ''Contract source code not verified'')"
    and "startsWith (CompilerVersion r) ''vyper''"
  shows "processResult (E\<lparr>JSON_parse := p\<rparr>) (Some r) =
           (Inr (Some \<lparr>sources = [],
                       options = \<lparr>language = ''Vyper'', version = '''', settings = []\<rparr>\<rparr>)
            :: 'e error + 'n SourceInfo option)"
  using assms by (simp add: processResult_def vyperInfo_def)

theorem vyper_before_parse_witness:
  "\<not> (SourceCode vyper_record = '''' \<and> ABI vyper_record = ''Contract source code not verified'')
   \<and> startsWith (CompilerVersion vyper_record) ''vyper''
   \<and> processResult (example_env\<lparr>JSON_parse := \<lambda>s. None\<rparr>) (Some vyper_record) =
       (Inr (Some \<lparr>sources = [],
                   options = \<lparr>language = ''Vyper'', version = '''', settings = []\<rparr>\<rparr>)
        :: unit error + int SourceInfo option)"
proof -
  have a: "\<not> (SourceCode vyper_record = ''''
              \<and> ABI vyper_record = ''Contract source code not verified'')"
    by (simp add: example_defs)
  have b: "startsWith (CompilerVersion vyper_record) ''vyper''"
    by (simp add: example_defs)
  show ?thesis
    using a b vyper_before_parse [OF a b, where E = example_env and p = "\<lambda>s. None" and ?'e = unit] by simp
qed

text \<open>
  C2, as the code has it. The classifier returns \<open>null\<close> exactly for the unverified
  record. On every other record it never returns \<open>null\<close>: it returns a source when
  the record is a Vyper one, when the source text does not parse as JSON, or when the
  parsed value is readable; when the parsed value is not readable (it is \<open>null\<close>,
  or its sources are missing or \<open>null\<close>, or one of the source entries is \<open>null\<close>)
  it throws a \<open>TypeError\<close>.
\<close>

theorem null_only_when_unverified:
  "((processResult E (Some r) = (Inr None :: 'e error + 'n SourceInfo option)) =
      (SourceCode r = '''' \<and> ABI r = ''Contract source code not verified''))
   \<and> (\<not> (SourceCode r = '''' \<and> ABI r = ''Contract source code not verified'') \<longrightarrow>
        (if startsWith (CompilerVersion r) ''vyper''
            \<or> (case JSON_parse E (SourceCode r) of None \<Rightarrow> True | Some j \<Rightarrow> readable j)
         then \<exists>info. processResult E (Some r)
                        = (Inr (Some info) :: 'e error + 'n SourceInfo option)
         else processResult E (Some r) = (Inl TypeError :: 'e error + 'n SourceInfo option)))"
proof (cases "SourceCode r = '''' \<and> ABI r = ''Contract source code not verified''")
  case True
  then show ?thesis by (simp add: processResult_def)
next
  case nu: False
  show ?thesis
  proof (cases "startsWith (CompilerVersion r) ''vyper''")
    case True
    then show ?thesis using nu by (auto simp: processResult_def)
  next
    case nv: False
    show ?thesis
    proof (cases "JSON_parse E (SourceCode r)")
      case None
      then show ?thesis using nu nv by (auto simp: processResult_def)
    next
      case (Some j)
      show ?thesis
        using parsed_result [OF nu nv Some, where ?'e = 'e] nu nv Some
        by (auto split: if_splits)
    qed
  qed
qed

theorem null_only_when_unverified_witness:
  "(processResult example_env
       (Some (example_record\<lparr>SourceCode := '''', ABI := ''Contract source code not verified''\<rparr>))
     = (Inr None :: unit error + int SourceInfo option))
   \<and> \<not> (SourceCode example_record = ''''
         \<and> ABI example_record = ''Contract source code not verified'')
   \<and> (\<exists>info. processResult example_env (Some example_record)
                = (Inr (Some info) :: unit error + int SourceInfo option))"
  using null_only_when_unverified
          [where E = example_env and ?'e = unit
             and r = "example_record\<lparr>SourceCode := '''', ABI := ''Contract source code not verified''\<rparr>"]
        null_only_when_unverified [where E = example_env and r = example_record and ?'e = unit]
  by (simp add: example_defs)

text \<open>
  C2 as stated fails: a record whose source text is \<open>null\<close> is not the unverified
  one, \<open>JSON.parse\<close> gives \<open>null\<close> on it, and reading \<open>language\<close> off that value
  throws a \<open>TypeError\<close>, so no source is returned.
\<close>

theorem null_source_text_throws:
  "\<not> (SourceCode null_record = ''''
       \<and> ABI null_record = ''Contract source code not verified'')
   \<and> JSON_parse example_env (SourceCode null_record) = Some JNull
   \<and> processResult example_env (Some null_record)
       = (Inl TypeError :: unit error + int SourceInfo option)"
  by (simp add: example_defs processResult_def isFullJson_def)

subsection \<open>No library linkage in the settings\<close>

text \<open>
  C3. Whenever the classifier returns a source, its settings have no \<open>libraries\<close>
  key. In the full-JSON-input case the settings are the parsed settings without that
  key: every other key has the value it has there. In the single-file and the
  multi-source case the settings have no key other than \<open>optimizer\<close> and
  \<open>evmVersion\<close>, whatever the field \<open>Library\<close> of the record holds.
\<close>

theorem settings_without_libraries:
  assumes "processResult E (Some r) = (Inr (Some info) :: 'e error + 'n SourceInfo option)"
  shows "''libraries'' \<notin> fst ` set (settings (options info))
         \<and> (\<forall>j. \<not> startsWith (CompilerVersion r) ''vyper''
                  \<and> JSON_parse E (SourceCode r) = Some j
                  \<and> read_prop ''language'' j = JStr ''Solidity''
               \<longrightarrow> (\<forall>k. k \<noteq> ''libraries'' \<longrightarrow>
                      map_of (settings (options info)) k
                        = map_of (spread (read_prop ''settings'' j)) k))
         \<and> (\<not> startsWith (CompilerVersion r) ''vyper''
              \<and> (case JSON_parse E (SourceCode r) of
                    None \<Rightarrow> True
                  | Some j \<Rightarrow> read_prop ''language'' j \<noteq> JStr ''Solidity'')
               \<longrightarrow> fst ` set (settings (options info)) \<subseteq> {''optimizer'', ''evmVersion''})"
proof -
  have nu: "\<not> (SourceCode r = '''' \<and> ABI r = ''Contract source code not verified'')"
    using assms by (auto simp: processResult_def)
  show ?thesis
  proof (cases "startsWith (CompilerVersion r) ''vyper''")
    case True
    then show ?thesis using assms nu by (auto simp: processResult_def vyperInfo_def)
  next
    case nv: False
    show ?thesis
    proof (cases "JSON_parse E (SourceCode r)")
      case None
      then have "settings (options info) = extractSettings E r"
        using assms nu nv by (auto simp: processResult_def processSingleResult_def)
      then show ?thesis using None nv extractSettings_keys [of E r] by auto
    next
      case (Some j)
      have nn: "\<not> nullish j"
        using assms nu nv Some isFullJson_nullish [of j, where ?'e = 'e]
        by (auto simp: processResult_def)
      show ?thesis
      proof (cases "read_prop ''language'' j = JStr ''Solidity''")
        case True
        then have "settings (options info) = removeLibraries (read_prop ''settings'' j)"
          using assms nu nv Some nn
          by (auto simp: processResult_def isFullJson_value processJsonResult_def
              split: sum.splits)
        then show ?thesis using Some nv True
          by (simp add: removeLibraries_keys removeLibraries_lookup)
      next
        case False
        then have "settings (options info) = extractSettings E r"
          using assms nu nv Some nn
          by (auto simp: processResult_def isFullJson_value processMultiResult_def
              split: sum.splits)
        then show ?thesis using Some nv False extractSettings_keys [of E r] by auto
      qed
    qed
  qed
qed

theorem settings_without_libraries_witness:
  "processResult example_env (Some full_input_record)
     = (Inr (Some \<lparr>sources = [(''a.sol'', JStr ''X'')],
                   options = \<lparr>language = ''Solidity'', version = ''v0.8.0'',
                              settings = [(''optimizer'',
                                           JObj [(''enabled'', JBool True),
                                                 (''runs'', JNum 1)])]\<rparr>\<rparr>)
        :: unit error + int SourceInfo option)
   \<and> map_of (spread (read_prop ''settings'' full_input)) ''libraries''
       = Some (JObj [(''a.sol'', JObj [(''L'', JStr ''0x1'')])])
   \<and> ''libraries'' \<notin> fst ` set [(''optimizer'',
                                     JObj [(''enabled'', JBool True),
                                           (''runs'', JNum (1::int))])]"
proof -
  have a: "processResult example_env (Some full_input_record)
     = (Inr (Some \<lparr>sources = [(''a.sol'', JStr ''X'')],
                   options = \<lparr>language = ''Solidity'', version = ''v0.8.0'',
                              settings = [(''optimizer'',
                                           JObj [(''enabled'', JBool True),
                                                 (''runs'', JNum 1)])]\<rparr>\<rparr>)
        :: unit error + int SourceInfo option)"
    by (simp add: example_defs processResult_def isFullJson_def processJsonResult_def
        processSources_def source_entry_def Object_assign_def removeLibraries_def
        spread_def)
  have b: "map_of (spread (read_prop ''settings'' full_input)) ''libraries''
       = Some (JObj [(''a.sol'', JObj [(''L'', JStr ''0x1'')])])"
    by (simp add: example_defs spread_def)
  show ?thesis
    using a b settings_without_libraries [OF a] by simp
qed

subsection \<open>The single-file case\<close>

text \<open>
  C4. A record that is neither the unverified one nor a Vyper one, and whose source
  text does not parse as JSON, is classified as a source with exactly one entry: the
  key is \<open>makeFilename\<close> of the contract name and the value is the source text.
  The language is \<open>Solidity\<close>, the version is the compiler version of the record,
  the optimizer is enabled exactly when \<open>OptimizationUsed\<close> is \<open>"1"\<close>, its runs
  are \<open>parseInt\<close> of \<open>Runs\<close>, and the settings have the key \<open>evmVersion\<close>
  (holding the field \<open>EVMVersion\<close>) exactly when that field is not \<open>"Default"\<close>.
\<close>

theorem single_file_case:
  assumes "\<not> (SourceCode r = '''' \<and> ABI r = ''Contract source code not verified'')"
    and "\<not> startsWith (CompilerVersion r) ''vyper''"
    and "JSON_parse E (SourceCode r) = None"
  shows "\<exists>info. processResult E (Some r)
                   = (Inr (Some info) :: 'e error + 'n SourceInfo option)
           \<and> sources info = [(makeFilename E (ContractName r), JStr (SourceCode r))]
           \<and> language (options info) = ''Solidity''
           \<and> version (options info) = CompilerVersion r
           \<and> map_of (settings (options info)) ''optimizer''
               = Some (JObj [(''enabled'', JBool (OptimizationUsed r = ''1'')),
                             (''runs'', JNum (parseInt E (Runs r)))])
           \<and> ((''evmVersion'' \<in> fst ` set (settings (options info)))
                = (EVMVersion r \<noteq> ''Default''))
           \<and> settings (options info)
               = (''optimizer'', JObj [(''enabled'', JBool (OptimizationUsed r = ''1'')),
                                        (''runs'', JNum (parseInt E (Runs r)))])
                 # (if EVMVersion r = ''Default'' then []
                    else [(''evmVersion'', JStr (EVMVersion r))])"
  using assms
  by (simp add: processResult_def processSingleResult_def extractSettings_def)

theorem single_file_case_witness:
  "\<not> (SourceCode example_record = ''''
       \<and> ABI example_record = ''Contract source code not verified'')
   \<and> \<not> startsWith (CompilerVersion example_record) ''vyper''
   \<and> JSON_parse example_env (SourceCode example_record) = None
   \<and> (\<exists>info. processResult example_env (Some example_record)
                = (Inr (Some info) :: unit error + int SourceInfo option)
          \<and> sources info = [(''C.sol'', JStr ''contract C {}'')]
          \<and> language (options info) = ''Solidity''
          \<and> version (options info) = ''v0.8.0''
          \<and> settings (options info)
              = [(''optimizer'', JObj [(''enabled'', JBool True), (''runs'', JNum 200)])])"
proof -
  have a: "\<not> (SourceCode example_record = ''''
              \<and> ABI example_record = ''Contract source code not verified'')"
    by (simp add: example_defs)
  have b: "\<not> startsWith (CompilerVersion example_record) ''vyper''"
    by (simp add: example_defs)
  have c: "JSON_parse example_env (SourceCode example_record) = None"
    by (simp add: example_defs)
  have d: "makeFilename example_env (ContractName example_record) = ''C.sol''"
    by (simp add: example_defs)
  have e: "parseInt example_env (Runs example_record) = 200"
    by (simp add: example_defs)
  have f: "SourceCode example_record = ''contract C {}''
           \<and> CompilerVersion example_record = ''v0.8.0''
           \<and> OptimizationUsed example_record = ''1''
           \<and> EVMVersion example_record = ''Default''"
    by (simp add: example_defs)
  show ?thesis
    using a b c single_file_case [OF a b c, where ?'e = unit]
    by (auto simp: d e f)
qed

text \<open>
  C10. A record with an empty source text whose ABI is not the not-verified text and
  whose compiler version does not start with \<open>vyper\<close> is not classified as
  \<open>null\<close>: where \<open>JSON.parse\<close> throws on the empty string, as it does, the record
  is a single-file one, and the source returned has the one entry that maps
  \<open>makeFilename\<close> of the contract name to the empty text.
\<close>

theorem empty_source_is_single_file:
  assumes "SourceCode r = ''''"
    and "ABI r \<noteq> ''Contract source code not verified''"
    and "\<not> startsWith (CompilerVersion r) ''vyper''"
    and "JSON_parse E '''' = None"
  shows "processResult E (Some r) \<noteq> (Inr None :: 'e error + 'n SourceInfo option)
         \<and> processResult E (Some r)
             = (Inr (Some (processSingleResult E r)) :: 'e error + 'n SourceInfo option)
         \<and> sources (processSingleResult E r) = [(makeFilename E (ContractName r), JStr '''')]"
  using assms by (simp add: processResult_def processSingleResult_def)

theorem empty_source_is_single_file_witness:
  "SourceCode empty_source_record = ''''
   \<and> ABI empty_source_record \<noteq> ''Contract source code not verified''
   \<and> \<not> startsWith (CompilerVersion empty_source_record) ''vyper''
   \<and> JSON_parse example_env '''' = None
   \<and> (\<exists>info. processResult example_env (Some empty_source_record)
                = (Inr (Some info) :: unit error + int SourceInfo option)
          \<and> sources info = [(''C.sol'', JStr '''')])"
proof -
  have a: "SourceCode empty_source_record = ''''"
    by (simp add: example_defs)
  have b: "ABI empty_source_record \<noteq> ''Contract source code not verified''"
    by (simp add: example_defs)
  have c: "\<not> startsWith (CompilerVersion empty_source_record) ''vyper''"
    by (simp add: example_defs)
  have d: "JSON_parse example_env '''' = None"
    by (simp add: example_defs)
  have e: "makeFilename example_env (ContractName empty_source_record) = ''C.sol''"
    by (simp add: example_defs)
  show ?thesis
    using a b c d empty_source_is_single_file [OF a b c d, where ?'e = unit]
    by (auto simp: e)
qed

section \<open>Properties of the network resolver\<close>

text \<open>
  C8. The fetcher is valid exactly when the table gives the identifier a name and the
  name is one of \<open>mainnet\<close>, \<open>ropsten\<close>, \<open>kovan\<close>, \<open>rinkeby\<close>, \<open>goerli\<close>; an
  identifier the table does not know, or one with any other name, is invalid. On a
  valid network the suffix is empty for \<open>mainnet\<close> and a hyphen followed by the name
  for the other four.
\<close>

theorem network_resolver:
  "(isNetworkValid (EtherscanFetcher networksById now networkId)
      = (\<exists>nm. networksById networkId = Some nm
              \<and> nm \<in> {''mainnet'', ''ropsten'', ''kovan'', ''rinkeby'', ''goerli''}))
   \<and> (\<forall>nm. networksById networkId = Some nm
              \<and> nm \<in> {''mainnet'', ''ropsten'', ''kovan'', ''rinkeby'', ''goerli''}
         \<longrightarrow> suffix (EtherscanFetcher networksById now networkId)
               = Some (if nm = ''mainnet'' then '''' else ''-'' @ nm))"
  by (auto simp: isNetworkValid_def EtherscanFetcher_def supportedNetworks_def
      Let_def split: option.splits)

theorem network_resolver_witness:
  "isNetworkValid (EtherscanFetcher example_networks 0 (1::int))
   \<and> suffix (EtherscanFetcher example_networks 0 (1::int)) = Some ''''
   \<and> isNetworkValid (EtherscanFetcher example_networks 0 (42::int))
   \<and> suffix (EtherscanFetcher example_networks 0 (42::int)) = Some ''-kovan''
   \<and> \<not> isNetworkValid (EtherscanFetcher example_networks 0 (100::int))
   \<and> \<not> isNetworkValid (EtherscanFetcher example_networks 0 (7::int))"
proof -
  have a: "example_networks 1 = Some ''mainnet''" "example_networks 42 = Some ''kovan''"
    "example_networks 100 = Some ''xdai''" "example_networks 7 = None"
    by (simp_all add: example_networks_def)
  show ?thesis
    using network_resolver [of example_networks 0 "1::int"]
      network_resolver [of example_networks 0 "42::int"]
      network_resolver [of example_networks 0 "100::int"]
      network_resolver [of example_networks 0 "7::int"]
    by (simp add: a)
qed

section \<open>Properties of the requester\<close>

subsection \<open>The loop of two attempts\<close>

lemma attempts_done: "attempts net addr 2 e s = (Inl e, s)"
  by (subst attempts.simps) (simp add: allowedAttempts_def)

lemma attempts_last:
  "attempts net addr (Suc 0) e s =
     (case attempt_once net addr s of
        (Inr response, s') \<Rightarrow> (Inr response, s')
      | (Inl err, s') \<Rightarrow> (Inl err, s'))"
  by (subst attempts.simps)
    (simp add: allowedAttempts_def attempts_done numeral_2_eq_2 [symmetric]
      split: prod.splits sum.splits)

lemma getSuccessfulResponse_unfold:
  "getSuccessfulResponse net addr s =
     (case attempt_once net addr s of
        (Inr response, s') \<Rightarrow> (Inr response, s')
      | (Inl err, s') \<Rightarrow>
          (case attempt_once net addr s' of
             (Inr response, s'') \<Rightarrow> (Inr response, s'')
           | (Inl err', s'') \<Rightarrow> (Inl err', s'')))"
  unfolding getSuccessfulResponse_def
  by (subst attempts.simps)
    (simp add: allowedAttempts_def attempts_last split: prod.splits sum.splits)

lemma attempt_once_eq:
  "attempt_once net addr (f, w) =
     (let t = max (clock w) (ready f);
          (latency, out) = net (length (dispatched w)) (request_for f addr)
      in (settle out,
          f\<lparr>ready := t + timeout f\<rparr>,
          \<lparr>clock = t + latency, dispatched = t # dispatched w\<rparr>))"
  by (simp add: attempt_once_def makeRequest_def await_def makeTimer_def Let_def
      split: prod.splits)

lemma request_for_ready [simp]: "request_for (f\<lparr>ready := t\<rparr>) addr = request_for f addr"
  by (simp add: request_for_def)

lemma fresh_state_eq:
  "fresh_state =
     (\<lparr>validNetwork = True, suffix = Some ''-goerli'', apiKey = '''', timeout = 334,
       ready = 0\<rparr>, \<lparr>clock = 0, dispatched = []\<rparr>)"
  by (simp add: fresh_state_def EtherscanFetcher_def example_networks_def
      supportedNetworks_def makeTimer_def)

text \<open>
  C5. One call of \<open>getSuccessfulResponse\<close> starts one or two transport calls, each
  after awaiting the readiness signal: the first at \<open>t1\<close>, when the signal held on
  entry is satisfied, the second at \<open>t2\<close>, when the first has settled and the signal
  set at \<open>t1\<close> is satisfied. If the first settles with a success envelope, that
  envelope is returned and no second call is made. If the first fails, the second is
  made and its outcome is the outcome of the whole call: its envelope on success, its
  own error on failure, the error of the first being dropped. A call fails when the
  transport throws (the thrown value is the error) or when the envelope has the
  failure status (the error is an \<open>Error\<close> of the envelope's result string).
\<close>

theorem two_attempts:
  "(let k = length (dispatched w);
        (latency1, out1) = net k (request_for f addr);
        (latency2, out2) = net (Suc k) (request_for f addr);
        t1 = max (clock w) (ready f);
        t2 = max (t1 + latency1) (t1 + timeout f);
        (res, f', w') = getSuccessfulResponse net addr (f, w)
    in (case settle out1 of
          Inr response \<Rightarrow> res = Inr response \<and> dispatched w' = t1 # dispatched w
        | Inl e1 \<Rightarrow> res = settle out2 \<and> dispatched w' = t2 # t1 # dispatched w))
   \<and> settle (Rejects x) = (Inl (Thrown x) :: 'e error + EtherscanSuccess)
   \<and> settle (Resolves (Status0 failure))
       = (Inl (Error (result failure)) :: 'e error + EtherscanSuccess)
   \<and> settle (Resolves (Status1 success)) = (Inr success :: 'e error + EtherscanSuccess)"
  by (auto simp: getSuccessfulResponse_unfold attempt_once_eq Let_def settle_def
      split: prod.splits sum.splits)

theorem two_attempts_witness:
  "fst (getSuccessfulResponse flaky_transport ''0xabc'' fresh_state) = Inr ok_envelope
   \<and> dispatched (snd (snd (getSuccessfulResponse flaky_transport ''0xabc'' fresh_state)))
       = [334, 0]
   \<and> fst (getSuccessfulResponse failing_transport ''0xabc'' fresh_state)
       = Inl (Error ''Max rate limit reached'')
   \<and> dispatched (snd (snd (getSuccessfulResponse failing_transport ''0xabc'' fresh_state)))
       = [334, 0]
   \<and> fst (getSuccessfulResponse empty_transport ''0xabc'' fresh_state)
       = Inr \<lparr>message = ''OK'', result = []\<rparr>
   \<and> dispatched (snd (snd (getSuccessfulResponse empty_transport ''0xabc'' fresh_state)))
       = [0]"
  using two_attempts [of "\<lparr>clock = 0, dispatched = []\<rparr>" flaky_transport
      "\<lparr>validNetwork = True, suffix = Some ''-goerli'', apiKey = '''', timeout = 334,
        ready = 0\<rparr>" "''0xabc''"]
    two_attempts [of "\<lparr>clock = 0, dispatched = []\<rparr>" failing_transport
      "\<lparr>validNetwork = True, suffix = Some ''-goerli'', apiKey = '''', timeout = 334,
        ready = 0\<rparr>" "''0xabc''"]
    two_attempts [of "\<lparr>clock = 0, dispatched = []\<rparr>" empty_transport
      "\<lparr>validNetwork = True, suffix = Some ''-goerli'', apiKey = '''', timeout = 334,
        ready = 0\<rparr>" "''0xabc''"]
  by (simp add: fresh_state_eq flaky_transport_def failing_transport_def
      empty_transport_def settle_def failure_envelope_def split: prod.splits)

subsection \<open>The record that is classified\<close>

text \<open>
  C9. When \<open>getSuccessfulResponse\<close> returns an envelope, \<open>fetchSourcesForAddress\<close>
  classifies the first record of its result array, whatever follows it in the array.
  When the array is empty it classifies \<open>undefined\<close>: nothing guards the read, and
  the classifier throws a \<open>TypeError\<close>.
\<close>

theorem first_record_only:
  assumes "getSuccessfulResponse net addr s = (Inr response, s')"
  shows "(\<forall>first rest. result response = first # rest \<longrightarrow>
            fetchSourcesForAddress E net addr s
              = ((processResult E (Some first) :: 'e error + 'n SourceInfo option), s'))
         \<and> (result response = [] \<longrightarrow>
            fetchSourcesForAddress E net addr s
              = ((processResult E None :: 'e error + 'n SourceInfo option), s')
            \<and> (processResult E None :: 'e error + 'n SourceInfo option) = Inl TypeError)"
  using assms by (simp add: fetchSourcesForAddress_def at0_def processResult_def)

theorem first_record_only_witness:
  "fst (getSuccessfulResponse flaky_transport ''0xabc'' fresh_state) = Inr ok_envelope
   \<and> result ok_envelope = [example_record, vyper_record]
   \<and> fst (fetchSourcesForAddress example_env flaky_transport ''0xabc'' fresh_state)
       = processResult example_env (Some example_record)
   \<and> fst (getSuccessfulResponse empty_transport ''0xabc'' fresh_state)
       = Inr \<lparr>message = ''OK'', result = []\<rparr>
   \<and> fst (fetchSourcesForAddress example_env empty_transport ''0xabc'' fresh_state)
       = Inl TypeError"
proof -
  let ?g1 = "getSuccessfulResponse flaky_transport ''0xabc'' fresh_state"
  let ?g2 = "getSuccessfulResponse empty_transport ''0xabc'' fresh_state"
  have a1: "fst ?g1 = Inr ok_envelope"
    by (simp add: getSuccessfulResponse_unfold fresh_state_eq attempt_once_eq
        flaky_transport_def settle_def)
  have a2: "fst ?g2 = Inr \<lparr>message = ''OK'', result = []\<rparr>"
    by (simp add: getSuccessfulResponse_unfold fresh_state_eq attempt_once_eq
        empty_transport_def settle_def)
  have b1: "?g1 = (Inr ok_envelope, snd ?g1)"
    using a1 by (cases ?g1) simp
  have b2: "?g2 = (Inr \<lparr>message = ''OK'', result = []\<rparr>, snd ?g2)"
    using a2 by (cases ?g2) simp
  have c: "result ok_envelope = [example_record, vyper_record]"
    by (simp add: ok_envelope_def)
  show ?thesis
    using a1 a2 c
      first_record_only [OF b1, where E = example_env]
      first_record_only [OF b2, where E = example_env]
    by simp
qed

subsection \<open>The spacing of the transport calls\<close>

text \<open>
  With one caller at a time the gate keeps its invariant: every attempt awaits the
  signal set at the previous start, so the start times stay one interval apart.
\<close>

lemma timeout_value: "timeout (EtherscanFetcher networksById now networkId) = 334"
  by (simp add: EtherscanFetcher_def Let_def split: prod.splits)

lemma fresh_gate_ok:
  "gate_ok (EtherscanFetcher networksById now networkId, \<lparr>clock = c, dispatched = []\<rparr>)"
  by (simp add: gate_ok_def)

lemma attempt_once_gate_ok:
  assumes "gate_ok s"
  shows "gate_ok (snd (attempt_once net addr s))"
proof -
  obtain f w where s: "s = (f, w)" by (cases s)
  show ?thesis
    using assms unfolding s
    by (cases "dispatched w")
      (auto simp: gate_ok_def attempt_once_eq Let_def split: prod.splits)
qed

lemma attempts_gate_ok:
  "gate_ok s \<Longrightarrow> gate_ok (snd (attempts net addr n e s))"
proof (induction net addr n e s rule: attempts.induct)
  case (1 net addr attempt lastError s)
  show ?case
  proof (cases "attempt < allowedAttempts")
    case False
    then show ?thesis using "1.prems" by (subst attempts.simps) simp
  next
    case True
    obtain res s1 where a: "attempt_once net addr s = (res, s1)"
      by (cases "attempt_once net addr s")
    have ok1: "gate_ok s1"
      using attempt_once_gate_ok [OF "1.prems", of net addr] a by simp
    show ?thesis
    proof (cases res)
      case (Inr response)
      then show ?thesis using True a ok1 by (subst attempts.simps) simp
    next
      case (Inl err)
      then show ?thesis
        using True a "1.IH" [OF True a [symmetric] Inl ok1]
        by (subst attempts.simps) simp
    qed
  qed
qed

lemma sequential_fetch_spaced:
  assumes "gate_ok s"
  shows "gate_ok (snd (fetchSourcesForAddress E net addr s))"
proof -
  have "gate_ok (snd (getSuccessfulResponse net addr s))"
    using assms by (simp add: getSuccessfulResponse_def attempts_gate_ok)
  then show ?thesis
    by (auto simp: fetchSourcesForAddress_def split: prod.splits sum.splits)
qed

text \<open>
  For one caller the steps agree with \<open>attempt_once\<close>: it starts its request when
  the signal it found is satisfied, and leaves a signal one interval later.
\<close>

lemma single_caller_steps:
  assumes "map_of (awaiting c) i = None"
  shows "\<exists>c'. run [Await i, Tick (max (time c) (ready (shared c)) - time c), Resume i] c
               = Some c'
           \<and> time c' = max (time c) (ready (shared c))
           \<and> starts c' = max (time c) (ready (shared c)) # starts c
           \<and> ready (shared c')
               = max (time c) (ready (shared c)) + timeout (shared c)"
  using assms by (auto simp: step_def makeTimer_def max_def)

text \<open>
  C6, where the code departs from it. Two callers reach \<open>await this.ready\<close> on the
  same fetcher before either has gone on. Both are suspended on the same signal, and
  when it is satisfied both start their request at once: the two start times are
  equal, although the interval of the fetcher is 334 milliseconds. The replacement of
  the signal by the first caller comes too late for the second, which already holds
  the old one.
\<close>

theorem concurrent_callers_start_together:
  "timeout (shared fresh_callers) = 334
   \<and> map_option starts (run [Await 0, Await 1, Resume 0, Resume 1] fresh_callers)
       = Some [0, 0]
   \<and> \<not> spaced (timeout (shared fresh_callers)) [0, 0]"
  by (simp add: fresh_callers_def step_def EtherscanFetcher_def example_networks_def
      supportedNetworks_def makeTimer_def)

section \<open>The keys of the sources\<close>

text \<open>
  \<open>processSources\<close> does nothing about two paths with the same file name: the keys
  of its result are the file names of the paths, so there are as many keys as paths
  exactly when \<open>makeFilename\<close> is injective on the paths.
\<close>

lemma fold_update_keys:
  "fst ` set (fold (\<lambda>(k, v). AList.update k v) ob acc) = fst ` set ob \<union> fst ` set acc"
proof (induction ob arbitrary: acc)
  case Nil
  show ?case by simp
next
  case (Cons a ob)
  obtain k v where a: "a = (k, v)" by (cases a)
  show ?case using Cons.IH [of "AList.update k v acc"]
    by (auto simp: a dom_update)
qed

lemma Object_assign_keys:
  "fst ` set (Object_assign target objs)
     = fst ` set target \<union> (\<Union>ob\<in>set objs. fst ` set ob)"
  unfolding Object_assign_def
  by (induction objs arbitrary: target) (auto simp: fold_update_keys)

lemma map_throw_source_entry_keys:
  "map_throw (source_entry E) es = (Inr objs :: 'e error + 'n obj list) \<Longrightarrow>
     (\<Union>ob\<in>set objs. fst ` set ob) = makeFilename E ` fst ` set es"
proof (induction es arbitrary: objs)
  case Nil
  then show ?case by simp
next
  case (Cons a es)
  obtain p x where a: "a = (p, x)" by (cases a)
  have "\<exists>ob objs'. source_entry E a = (Inr ob :: 'e error + 'n obj)
           \<and> map_throw (source_entry E) es = (Inr objs' :: 'e error + 'n obj list)
           \<and> objs = ob # objs'"
    using Cons.prems by (auto split: sum.splits)
  then obtain ob objs' where
    c: "source_entry E a = (Inr ob :: 'e error + 'n obj)"
    and m: "map_throw (source_entry E) es = (Inr objs' :: 'e error + 'n obj list)"
    and o: "objs = ob # objs'"
    by blast
  have "fst ` set ob = {makeFilename E p}"
    using c by (auto simp: a source_entry_def split: sum.splits)
  moreover
  have "(\<Union>ob\<in>set objs'. fst ` set ob) = makeFilename E ` fst ` set es"
    using Cons.IH [OF m] .
  ultimately have "(\<Union>ob\<in>set objs. fst ` set ob)
      = insert (makeFilename E p) (makeFilename E ` fst ` set es)"
    by (simp add: o)
  then show ?case by (simp add: a)
qed

lemma processSources_keys:
  assumes "processSources E v = (Inr srcs :: 'e error + 'n obj)"
  shows "fst ` set srcs = makeFilename E ` fst ` set (own_entries v)"
proof -
  have nn: "\<not> nullish v"
    using assms by (cases v) (auto simp: processSources_def nullish_def)
  then have oe: "Object_entries v = (Inr (own_entries v) :: 'e error + 'n obj)"
    by (cases v) (auto simp: nullish_def)
  obtain objs where
    m: "map_throw (source_entry E) (own_entries v) = (Inr objs :: 'e error + 'n obj list)"
    and s: "srcs = Object_assign [] objs"
    using assms by (auto simp: processSources_def oe split: sum.splits)
  show ?thesis
    using map_throw_source_entry_keys [OF m] by (simp add: s Object_assign_keys)
qed

lemma processSources_keys_injective:
  assumes "processSources E v = (Inr srcs :: 'e error + 'n obj)"
  shows "(card (fst ` set srcs) = card (fst ` set (own_entries v)))
           = inj_on (makeFilename E) (fst ` set (own_entries v))"
  using processSources_keys [OF assms]
  by (simp add: inj_on_iff_eq_card)

text \<open>
  With the \<open>makeFilename\<close> of the examples, which is not injective, the source of the
  path \<open>a\<close> is replaced by that of the path \<open>a.sol\<close>.
\<close>

lemma processSources_overwrites:
  "processSources example_env two_paths
     = (Inr [(''a.sol'', JStr ''Y'')] :: unit error + int obj)"
  by (simp add: example_defs processSources_def source_entry_def Object_assign_def)

end
